theory Spec2Isabelle
  imports Main "HOL-Library.AList"
begin

section \<open>Python values used by the ecobee component\<close>

text \<open>
  A Python \<open>dict\<close> is an association list with distinct keys, in insertion order.
  Exceptions are values: a call that may raise returns \<open>exn + 'a\<close>, \<open>Inl\<close> being the
  raised exception.
\<close>

type_synonym ('k, 'v) dict = "('k \<times> 'v) list"

datatype exn = KeyError string | ExpiredTokenError | OtherError string

text \<open>\<open>d[k]\<close>: raises \<open>KeyError\<close> on a missing key.\<close>

definition subscript :: "(string, 'v) dict \<Rightarrow> string \<Rightarrow> exn + 'v" where
  "subscript d k = (case map_of d k of None \<Rightarrow> Inl (KeyError k) | Some v \<Rightarrow> Inr v)"

text \<open>\<open>d[k] = v\<close>.\<close>

definition setitem :: "(string, 'v) dict \<Rightarrow> string \<Rightarrow> 'v \<Rightarrow> (string, 'v) dict" where
  "setitem d k v = AList.update k v d"

text \<open>\<open>d.get(k, default)\<close>.\<close>

definition dict_get :: "(string, 'v) dict \<Rightarrow> string \<Rightarrow> 'v \<Rightarrow> 'v" where
  "dict_get d k dflt = (case map_of d k of None \<Rightarrow> dflt | Some v \<Rightarrow> v)"

text \<open>\<open>d.pop(k)\<close> with no default: raises \<open>KeyError\<close> on a missing key, otherwise
  returns the value and removes the key.\<close>

definition dict_pop :: "(string, 'v) dict \<Rightarrow> string \<Rightarrow> exn + ('v \<times> (string, 'v) dict)" where
  "dict_pop d k = (case map_of d k of None \<Rightarrow> Inl (KeyError k)
                   | Some v \<Rightarrow> Inr (v, AList.delete k d))"

text \<open>The builtin \<open>all\<close> on a list of booleans.\<close>

definition all_py :: "bool list \<Rightarrow> bool" where
  "all_py bs = list_all id bs"

text \<open>\<open>datetime\<close> and \<open>timedelta\<close> values count whole microseconds, as Python's do.\<close>

type_synonym datetime = int
type_synonym timedelta = int

definition timedelta_seconds :: "int \<Rightarrow> timedelta" where
  "timedelta_seconds s = s * 1000000"

section \<open>Collaborators\<close>

subsection \<open>The pyecobee library\<close>

text \<open>
  \<open>pyecobee\<close> is an external library: the component sees the names it imports (the
  class \<open>Ecobee\<close>, whose constructor is \<open>Ecobee_init\<close> here, \<open>ECOBEE_API_KEY\<close>,
  \<open>ECOBEE_REFRESH_TOKEN\<close> and \<open>ExpiredTokenError\<close>) and, of an \<open>Ecobee\<close> object, the
  attributes \<open>config\<close> and \<open>thermostats\<close> and the methods \<open>update\<close> and
  \<open>refresh_tokens\<close>. The library is a parameter of the model: \<open>'c\<close> is the state of a
  client object; a method returns its outcome, which may be an exception, and the client's
  new state. \<open>refresh_tokens\<close> is only tested for truth, so its value is a \<open>bool\<close>; the
  value of \<open>update\<close> is dropped by the component.
\<close>

type_synonym thermostat = string

record 'c pyecobee =
  ECOBEE_API_KEY :: string
  ECOBEE_REFRESH_TOKEN :: string
  Ecobee_init :: "(string, string) dict \<Rightarrow> 'c"
  Ecobee_config :: "'c \<Rightarrow> (string, string) dict"
  Ecobee_thermostats :: "'c \<Rightarrow> thermostat list option"
  Ecobee_update :: "'c \<Rightarrow> (exn + unit) \<times> 'c"
  Ecobee_refresh_tokens :: "'c \<Rightarrow> (exn + bool) \<times> 'c"

subsection \<open>Imported constants\<close>

text \<open>
  Modelled from the spec: \<open>CONF_API_KEY\<close> (homeassistant.const) and \<open>CONF_REFRESH_TOKEN\<close>
  (the component's const module) are not among the sources; the spec names the two fields of
  the durable entry record \<open>api_key\<close> and \<open>refresh_token\<close>.
\<close>

definition CONF_API_KEY :: string where
  "CONF_API_KEY = ''api_key''"

definition CONF_REFRESH_TOKEN :: string where
  "CONF_REFRESH_TOKEN = ''refresh_token''"

text \<open>
  The other imported constants, whose values neither the sources nor the spec give, are
  parameters.
\<close>

record const =
  DATA_ECOBEE_CONFIG :: string
  DOMAIN :: string
  ECOBEE_PLATFORMS :: "string list"
  SOURCE_IMPORT :: string

definition MIN_TIME_BETWEEN_UPDATES :: timedelta where
  "MIN_TIME_BETWEEN_UPDATES = timedelta_seconds 180"

subsection \<open>The hosting platform\<close>

text \<open>
  A config entry is an object: the coordinator, the caller of the setup and the entry
  manager hold references to the same one. \<open>entry_obj\<close> is the store of entry objects.
\<close>

type_synonym entry_ref = nat

record config_entry =
  entry_domain :: string
  entry_data :: "(string, string) dict"

text \<open>
  The coordinator, class \<open>EcobeeData\<close>. \<open>self._hass\<close> is the one \<open>hass\<close> object, passed
  explicitly to every operation. \<open>throttle\<close> is the state that the \<open>Throttle\<close> decorator keeps
  for the object: the time of the last call that it let through, \<open>None\<close> before the first.
\<close>

record 'c EcobeeData =
  entry :: entry_ref
  ecobee :: 'c
  throttle :: "datetime option"

text \<open>What \<open>hass.data\<close> holds: the legacy configuration block, or the coordinator.\<close>

datatype 'c hass_value = Config "(string, string) dict" | Data "'c EcobeeData"

text \<open>Truth value of such an object: a \<open>dict\<close> is true when it is not empty.\<close>

fun truthy :: "'c hass_value \<Rightarrow> bool" where
  "truthy (Config d) = (d \<noteq> [])"
| "truthy (Data c) = True"

text \<open>
  What the component does to the outside is recorded, in order, in a trace: log records,
  blocking calls handed to the executor, writes of an entry, tasks created on the event
  loop, and unload requests forwarded to a platform.
\<close>

datatype level = DEBUG | WARNING | ERROR

datatype job = Job_update | Job_refresh_tokens

datatype task =
  Flow_async_init string "(string, string) dict"
| Forward_entry_setup entry_ref string

datatype event =
  Log level string
| Executor_job job
| Update_entry entry_ref "(string, string) dict"
| Create_task task
| Forward_entry_unload entry_ref string

record 'c hass =
  hass_data :: "(string, 'c hass_value) dict"
  entries :: "entry_ref list"
  entry_obj :: "entry_ref \<Rightarrow> config_entry"
  trace :: "event list"

definition emit :: "event \<Rightarrow> 'c hass \<Rightarrow> 'c hass" where
  "emit e h = h\<lparr>trace := trace h @ [e]\<rparr>"

text \<open>\<open>_LOGGER.debug\<close>, \<open>_LOGGER.warning\<close>, \<open>_LOGGER.error\<close>.\<close>

definition LOGGER :: "level \<Rightarrow> string \<Rightarrow> 'c hass \<Rightarrow> 'c hass" where
  "LOGGER l msg h = emit (Log l msg) h"

text \<open>
  Modelled from the spec: \<open>hass.async_add_executor_job\<close> is not among the sources. The spec:
  the blocking call is invoked on a background execution context and its result awaited;
  so the caller gets the call's outcome, an exception included.
\<close>

definition async_add_executor_job ::
  "job \<Rightarrow> ('c \<Rightarrow> 'r \<times> 'c) \<Rightarrow> 'c \<Rightarrow> 'c hass \<Rightarrow> 'r \<times> 'c \<times> 'c hass" where
  "async_add_executor_job j f c h = (case f c of (r, c') \<Rightarrow> (r, c', emit (Executor_job j) h))"

text \<open>
  Modelled from the spec: \<open>hass.config_entries.async_update_entry\<close> is not among the sources.
  The spec: it writes the given data into the durable entry record.
\<close>

definition async_update_entry ::
  "entry_ref \<Rightarrow> (string, string) dict \<Rightarrow> 'c hass \<Rightarrow> 'c hass" where
  "async_update_entry r d h =
     emit (Update_entry r d) (h\<lparr>entry_obj := (entry_obj h)(r := (entry_obj h r)\<lparr>entry_data := d\<rparr>)\<rparr>)"

text \<open>
  Modelled from the spec: \<open>hass.config_entries.async_entries\<close> is not among the sources.
  The spec: the durable entries that exist for the integration.
\<close>

definition async_entries :: "'c hass \<Rightarrow> string \<Rightarrow> entry_ref list" where
  "async_entries h domain = filter (\<lambda>r. entry_domain (entry_obj h r) = domain) (entries h)"

text \<open>
  Modelled from the spec: \<open>hass.async_create_task\<close> is not among the sources. The spec: the
  task is scheduled (fire and forget); it does not run inside the caller.
\<close>

definition async_create_task :: "task \<Rightarrow> 'c hass \<Rightarrow> 'c hass" where
  "async_create_task t h = emit (Create_task t) h"

text \<open>
  Modelled from the spec: the test that the \<open>Throttle\<close> decorator (homeassistant.util, not
  among the sources) makes of its state. The spec: the throttle state is the timestamp of
  the last call that was not short-circuited (its last-successful-call timestamp), and a
  call made sooner than the interval after it short-circuits. \<open>now\<close> is the clock reading
  of the call.
\<close>

definition throttled :: "timedelta \<Rightarrow> datetime \<Rightarrow> 'c EcobeeData \<Rightarrow> bool" where
  "throttled min_time now self =
     (case throttle self of None \<Rightarrow> False | Some t \<Rightarrow> now - t < min_time)"

text \<open>
  Modelled from the spec: the \<open>Throttle\<close> decorator is not among the sources. The spec: a
  call that short-circuits returns immediately, without calling the wrapped operation and
  without an error; otherwise the wrapped operation executes. The spec has the wrapped
  operation execute at most once per interval, for any coordinator and with no condition
  on how the execution ends: so every call that is let through is stamped, whether the
  wrapped operation returns or raises.
\<close>

definition Throttle ::
  "timedelta \<Rightarrow> ('c EcobeeData \<Rightarrow> 'c hass \<Rightarrow> (exn + unit) \<times> 'c EcobeeData \<times> 'c hass) \<Rightarrow>
   datetime \<Rightarrow> 'c EcobeeData \<Rightarrow> 'c hass \<Rightarrow> (exn + unit) \<times> 'c EcobeeData \<times> 'c hass" where
  "Throttle min_time method now self h =
     (if throttled min_time now self then (Inr (), self, h)
      else (case method self h of
              (r, self', h') \<Rightarrow> (r, self'\<lparr>throttle := Some now\<rparr>, h')))"

text \<open>
  \<open>asyncio.gather\<close> over the unload requests made of the platforms. The outcome of a
  request is given by \<open>async_forward_entry_unload\<close>, a parameter (the platforms are
  collaborators): it reports success or failure, or raises. Every request is started. If
  one raises, \<open>gather\<close> raises to its awaiter while the others still run; otherwise it
  returns the list of the results. The requests are run one after the other here.
\<close>

fun first_raised :: "(exn + 'a) list \<Rightarrow> exn + 'a list" where
  "first_raised [] = Inr []"
| "first_raised (Inl x # rs) = Inl x"
| "first_raised (Inr v # rs) = (case first_raised rs of Inl x \<Rightarrow> Inl x | Inr vs \<Rightarrow> Inr (v # vs))"

definition gather ::
  "(entry_ref \<Rightarrow> string \<Rightarrow> exn + bool) \<Rightarrow> (entry_ref \<times> string) list \<Rightarrow> 'c hass \<Rightarrow>
   (exn + bool list) \<times> 'c hass" where
  "gather async_forward_entry_unload tasks h =
     (first_raised (map (\<lambda>(e, p). async_forward_entry_unload e p) tasks),
      foldl (\<lambda>h' (e, p). emit (Forward_entry_unload e p) h') h tasks)"

section \<open>The component\<close>

subsection \<open>\<open>EcobeeData\<close>\<close>

definition EcobeeData_init ::
  "'c pyecobee \<Rightarrow> entry_ref \<Rightarrow> string \<Rightarrow> string \<Rightarrow> 'c EcobeeData" where
  "EcobeeData_init lib entry_r api_key refresh_token =
     \<lparr>entry = entry_r,
      ecobee = Ecobee_init lib (setitem (setitem [] (ECOBEE_API_KEY lib) api_key)
                             (ECOBEE_REFRESH_TOKEN lib) refresh_token),
      throttle = None\<rparr>"

definition refresh ::
  "'c pyecobee \<Rightarrow> 'c EcobeeData \<Rightarrow> 'c hass \<Rightarrow> (exn + bool) \<times> 'c EcobeeData \<times> 'c hass" where
  "refresh lib self h =
     (let h1 = LOGGER DEBUG ''Refreshing ecobee tokens and updating config entry'' h in
      case async_add_executor_job Job_refresh_tokens (Ecobee_refresh_tokens lib) (ecobee self) h1 of
        (Inl x, c, h2) \<Rightarrow> (Inl x, self\<lparr>ecobee := c\<rparr>, h2)
      | (Inr ok, c, h2) \<Rightarrow>
          if ok then
            (case subscript (Ecobee_config lib c) (ECOBEE_API_KEY lib) of
               Inl x \<Rightarrow> (Inl x, self\<lparr>ecobee := c\<rparr>, h2)
             | Inr k \<Rightarrow>
                (case subscript (Ecobee_config lib c) (ECOBEE_REFRESH_TOKEN lib) of
                   Inl x \<Rightarrow> (Inl x, self\<lparr>ecobee := c\<rparr>, h2)
                 | Inr t \<Rightarrow>
                    (Inr True, self\<lparr>ecobee := c\<rparr>,
                     async_update_entry (entry self)
                       (setitem (setitem [] CONF_API_KEY k) CONF_REFRESH_TOKEN t) h2)))
          else (Inr False, self\<lparr>ecobee := c\<rparr>, LOGGER ERROR ''Error updating ecobee tokens'' h2))"

text \<open>The body of \<open>update\<close>, before the decorator.\<close>

definition update_body ::
  "'c pyecobee \<Rightarrow> 'c EcobeeData \<Rightarrow> 'c hass \<Rightarrow> (exn + unit) \<times> 'c EcobeeData \<times> 'c hass" where
  "update_body lib self h =
     (case async_add_executor_job Job_update (Ecobee_update lib) (ecobee self) h of
        (Inr v, c, h1) \<Rightarrow> (Inr (), self\<lparr>ecobee := c\<rparr>, LOGGER DEBUG ''Updating ecobee'' h1)
      | (Inl ExpiredTokenError, c, h1) \<Rightarrow>
          (let h2 = LOGGER WARNING ''Ecobee update failed; attempting to refresh expired tokens'' h1 in
           case refresh lib (self\<lparr>ecobee := c\<rparr>) h2 of
             (Inl x, self', h3) \<Rightarrow> (Inl x, self', h3)
           | (Inr b, self', h3) \<Rightarrow> (Inr (), self', h3))
      | (Inl x, c, h1) \<Rightarrow> (Inl x, self\<lparr>ecobee := c\<rparr>, h1))"

definition update ::
  "'c pyecobee \<Rightarrow> datetime \<Rightarrow> 'c EcobeeData \<Rightarrow> 'c hass \<Rightarrow> (exn + unit) \<times> 'c EcobeeData \<times> 'c hass" where
  "update lib = Throttle MIN_TIME_BETWEEN_UPDATES (update_body lib)"

subsection \<open>Setup and unload\<close>

definition async_setup ::
  "const \<Rightarrow> 'c hass \<Rightarrow> (string, (string, string) dict) dict \<Rightarrow> (exn + bool) \<times> 'c hass" where
  "async_setup K hass config =
     (let h1 = hass\<lparr>hass_data :=
                 setitem (hass_data hass) (DATA_ECOBEE_CONFIG K) (Config (dict_get config (DOMAIN K) []))\<rparr>
      in if async_entries h1 (DOMAIN K) = [] then
           (case subscript (hass_data h1) (DATA_ECOBEE_CONFIG K) of
              Inl x \<Rightarrow> (Inl x, h1)
            | Inr v \<Rightarrow>
               if truthy v then
                 (Inr True,
                  async_create_task
                    (Flow_async_init (DOMAIN K) (setitem [] ''source'' (SOURCE_IMPORT K))) h1)
               else (Inr True, h1))
         else (Inr True, h1))"

definition async_setup_entry ::
  "'c pyecobee \<Rightarrow> const \<Rightarrow> datetime \<Rightarrow> 'c hass \<Rightarrow> entry_ref \<Rightarrow> (exn + bool) \<times> 'c hass" where
  "async_setup_entry lib K now hass entry_r =
     (case subscript (entry_data (entry_obj hass entry_r)) CONF_API_KEY of
        Inl x \<Rightarrow> (Inl x, hass)
      | Inr api_key \<Rightarrow>
     (case subscript (entry_data (entry_obj hass entry_r)) CONF_REFRESH_TOKEN of
        Inl x \<Rightarrow> (Inl x, hass)
      | Inr refresh_token \<Rightarrow>
     (let data = EcobeeData_init lib entry_r api_key refresh_token in
      case refresh lib data hass of
        (Inl x, data1, h1) \<Rightarrow> (Inl x, h1)
      | (Inr ok, data1, h1) \<Rightarrow>
          if \<not> ok then (Inr False, h1)
          else
           (case update lib now data1 h1 of
              (Inl x, data2, h2) \<Rightarrow> (Inl x, h2)
            | (Inr v, data2, h2) \<Rightarrow>
                if Ecobee_thermostats lib (ecobee data2) = None then
                  (Inr False, LOGGER ERROR ''No ecobee devices found to set up'' h2)
                else
                  (Inr True,
                   foldl (\<lambda>h component. async_create_task (Forward_entry_setup entry_r component) h)
                     (h2\<lparr>hass_data := setitem (hass_data h2) (DOMAIN K) (Data data2)\<rparr>)
                     (ECOBEE_PLATFORMS K))))))"

definition async_unload_entry ::
  "(entry_ref \<Rightarrow> string \<Rightarrow> exn + bool) \<Rightarrow> const \<Rightarrow> 'c hass \<Rightarrow> entry_ref \<Rightarrow>
   (exn + bool) \<times> 'c hass" where
  "async_unload_entry async_forward_entry_unload K hass config_entry =
     (case dict_pop (hass_data hass) (DOMAIN K) of
        Inl x \<Rightarrow> (Inl x, hass)
      | Inr (v, d) \<Rightarrow>
         (let h1 = hass\<lparr>hass_data := d\<rparr>;
              tasks = map (\<lambda>platform. (config_entry, platform)) (ECOBEE_PLATFORMS K)
          in case gather async_forward_entry_unload tasks h1 of
               (Inl x, h2) \<Rightarrow> (Inl x, h2)
             | (Inr results, h2) \<Rightarrow> (Inr (all_py results), h2)))"

subsection \<open>Reading the trace\<close>

text \<open>
  \<open>refresh\<close> hands \<open>refresh_tokens\<close> to the executor once per call and nothing else
  does, so the number of such jobs in a trace is the number of calls of \<open>refresh\<close>;
  likewise the number of \<open>update\<close> jobs is the number of data fetches.
\<close>

definition refresh_calls :: "event list \<Rightarrow> nat" where
  "refresh_calls tr = count_list tr (Executor_job Job_refresh_tokens)"

definition fetch_calls :: "event list \<Rightarrow> nat" where
  "fetch_calls tr = count_list tr (Executor_job Job_update)"

section \<open>A scripted service, for concrete runs\<close>

text \<open>
  A client whose state is its \<open>config\<close> and its \<open>thermostats\<close>, answering from a script:
  \<open>token_reply\<close> is what the service does on a token refresh (raise, refuse, or grant a
  new credential pair), \<open>fetch_reply\<close> what it does on a data fetch (raise, or deliver
  the thermostat list).
\<close>

type_synonym scripted = "(string, string) dict \<times> thermostat list option"

definition scripted_pyecobee ::
  "exn + (string \<times> string) option \<Rightarrow> exn + thermostat list \<Rightarrow> scripted pyecobee" where
  "scripted_pyecobee token_reply fetch_reply =
     \<lparr>ECOBEE_API_KEY = ''API_KEY'',
      ECOBEE_REFRESH_TOKEN = ''REFRESH_TOKEN'',
      Ecobee_init = (\<lambda>cfg. (cfg, None)),
      Ecobee_config = fst,
      Ecobee_thermostats = snd,
      Ecobee_update = (\<lambda>(cfg, ts).
         case fetch_reply of Inl x \<Rightarrow> (Inl x, (cfg, ts)) | Inr l \<Rightarrow> (Inr (), (cfg, Some l))),
      Ecobee_refresh_tokens = (\<lambda>(cfg, ts).
         case token_reply of
           Inl x \<Rightarrow> (Inl x, (cfg, ts))
         | Inr None \<Rightarrow> (Inr False, (cfg, ts))
         | Inr (Some (k, t)) \<Rightarrow> (Inr True, ([(''API_KEY'', k), (''REFRESH_TOKEN'', t)], ts)))\<rparr>"

definition const0 :: const where
  "const0 = \<lparr>DATA_ECOBEE_CONFIG = ''ecobee_config'', DOMAIN = ''ecobee'',
             ECOBEE_PLATFORMS = [''binary_sensor'', ''climate'', ''sensor'', ''weather''],
             SOURCE_IMPORT = ''import''\<rparr>"

text \<open>An entry holding the pair K1, R1; a \<open>hass\<close> object knowing it, with nothing set up.\<close>

definition entry0 :: config_entry where
  "entry0 = \<lparr>entry_domain = ''ecobee'',
             entry_data = [(''api_key'', ''K1''), (''refresh_token'', ''R1'')]\<rparr>"

definition hass0 :: "scripted hass" where
  "hass0 = \<lparr>hass_data = [], entries = [0], entry_obj = (\<lambda>r. entry0), trace = []\<rparr>"

text \<open>A \<open>hass\<close> object with no entry at all, as at the first start.\<close>

definition hass_fresh :: "scripted hass" where
  "hass_fresh = \<lparr>hass_data = [], entries = [], entry_obj = (\<lambda>r. entry0), trace = []\<rparr>"

text \<open>The coordinator of that entry, as \<open>async_setup_entry\<close> builds it.\<close>

definition data0 :: "scripted pyecobee \<Rightarrow> scripted EcobeeData" where
  "data0 lib = EcobeeData_init lib 0 ''K1'' ''R1''"

text \<open>Platforms that all unload, and platforms of which \<open>climate\<close> does not.\<close>

definition unload_ok :: "entry_ref \<Rightarrow> string \<Rightarrow> exn + bool" where
  "unload_ok e p = Inr True"

definition unload_climate_fails :: "entry_ref \<Rightarrow> string \<Rightarrow> exn + bool" where
  "unload_climate_fails e p = Inr (p \<noteq> ''climate'')"

section \<open>Auxiliary facts\<close>

lemmas refresh_unfold = refresh_def async_add_executor_job_def async_update_entry_def emit_def
  LOGGER_def Let_def

lemmas run_simps = refresh_def update_def update_body_def Throttle_def throttled_def
  async_add_executor_job_def async_update_entry_def async_create_task_def async_entries_def
  emit_def LOGGER_def Let_def
  subscript_def setitem_def dict_get_def dict_pop_def all_py_def timedelta_seconds_def
  MIN_TIME_BETWEEN_UPDATES_def CONF_API_KEY_def CONF_REFRESH_TOKEN_def EcobeeData_init_def
  async_setup_def async_setup_entry_def async_unload_entry_def gather_def
  refresh_calls_def fetch_calls_def
  scripted_pyecobee_def const0_def entry0_def hass0_def hass_fresh_def data0_def
  unload_ok_def unload_climate_fails_def

text \<open>\<open>refresh\<close> touches neither \<open>hass.data\<close> nor the coordinator's entry and throttle.\<close>

lemma refresh_keeps:
  assumes "refresh lib self h = (r, self', h')"
  shows "hass_data h' = hass_data h" and "entries h' = entries h"
    and "entry self' = entry self" and "throttle self' = throttle self"
  using assms by (auto simp: refresh_unfold split: prod.splits sum.splits if_splits)

text \<open>One call of \<open>refresh\<close> is one token-refresh job and no data fetch.\<close>

lemma refresh_calls_refresh:
  assumes "refresh lib self h = (r, self', h')"
  shows "refresh_calls (trace h') = refresh_calls (trace h) + 1"
    and "fetch_calls (trace h') = fetch_calls (trace h)"
  using assms
  by (auto simp: refresh_unfold refresh_calls_def fetch_calls_def
           split: prod.splits sum.splits if_splits)

text \<open>The three ways through the body of \<open>update\<close>, by the outcome of the data fetch.\<close>

lemma update_body_ok:
  assumes "Ecobee_update lib (ecobee self) = (Inr v, c)"
  shows "update_body lib self h =
     (Inr (), self\<lparr>ecobee := c\<rparr>,
      LOGGER DEBUG ''Updating ecobee'' (emit (Executor_job Job_update) h))"
  using assms by (simp add: update_body_def async_add_executor_job_def)

lemma update_body_expired:
  assumes "Ecobee_update lib (ecobee self) = (Inl ExpiredTokenError, c)"
  shows "update_body lib self h =
     (case refresh lib (self\<lparr>ecobee := c\<rparr>)
             (LOGGER WARNING ''Ecobee update failed; attempting to refresh expired tokens''
                (emit (Executor_job Job_update) h)) of
        (Inl y, s, h') \<Rightarrow> (Inl y, s, h') | (Inr b, s, h') \<Rightarrow> (Inr (), s, h'))"
  using assms by (simp add: update_body_def async_add_executor_job_def Let_def)

lemma update_body_not_expired:
  assumes "Ecobee_update lib (ecobee self) = (Inl x, c)" and "x \<noteq> ExpiredTokenError"
  shows "update_body lib self h = (Inl x, self\<lparr>ecobee := c\<rparr>, emit (Executor_job Job_update) h)"
  using assms by (cases x) (simp_all add: update_body_def async_add_executor_job_def)

text \<open>
  Whatever the outcome, the body of \<open>update\<close> fetches exactly once and leaves \<open>hass.data\<close>
  and the throttle state alone.
\<close>

lemma update_body_keeps:
  assumes "update_body lib self h = (r, self', h')"
  shows "hass_data h' = hass_data h" and "entry self' = entry self"
    and "throttle self' = throttle self"
    and "fetch_calls (trace h') = fetch_calls (trace h) + 1"
proof -
  obtain out c where u: "Ecobee_update lib (ecobee self) = (out, c)"
    by (cases "Ecobee_update lib (ecobee self)")
  have "hass_data h' = hass_data h \<and> entry self' = entry self \<and> throttle self' = throttle self
      \<and> fetch_calls (trace h') = fetch_calls (trace h) + 1"
  proof (cases out)
    case (Inr v)
    with u assms show ?thesis
      by (auto simp: update_body_ok LOGGER_def emit_def fetch_calls_def)
  next
    case (Inl x)
    show ?thesis
    proof (cases "x = ExpiredTokenError")
      case False
      with u Inl assms show ?thesis
        by (auto simp: update_body_not_expired emit_def fetch_calls_def)
    next
      case True
      let ?h1 = "LOGGER WARNING ''Ecobee update failed; attempting to refresh expired tokens''
                (emit (Executor_job Job_update) h)"
      obtain rr s hh where rf: "refresh lib (self\<lparr>ecobee := c\<rparr>) ?h1 = (rr, s, hh)"
        by (cases "refresh lib (self\<lparr>ecobee := c\<rparr>) ?h1")
      from u Inl True assms rf have e: "self' = s" "h' = hh"
        by (auto simp: update_body_expired split: sum.splits)
      from refresh_keeps[OF rf] refresh_calls_refresh(2)[OF rf] e show ?thesis
        by (simp add: LOGGER_def emit_def fetch_calls_def)
    qed
  qed
  then show "hass_data h' = hass_data h" and "entry self' = entry self"
    and "throttle self' = throttle self"
    and "fetch_calls (trace h') = fetch_calls (trace h) + 1" by simp_all
qed

text \<open>The decorated \<open>update\<close>, when the throttle lets the call through and when it does not.\<close>

lemma update_open:
  assumes "\<not> throttled MIN_TIME_BETWEEN_UPDATES now self"
  shows "update lib now self h =
     (case update_body lib self h of
        (r, s, h') \<Rightarrow> (r, s\<lparr>throttle := Some now\<rparr>, h'))"
  using assms by (simp add: update_def Throttle_def)

lemma update_throttled:
  assumes "throttled MIN_TIME_BETWEEN_UPDATES now self"
  shows "update lib now self h = (Inr (), self, h)"
  using assms by (simp add: update_def Throttle_def)

lemma update_keeps_data:
  assumes "update lib now self h = (r, self', h')"
  shows "hass_data h' = hass_data h"
proof (cases "throttled MIN_TIME_BETWEEN_UPDATES now self")
  case True
  with assms show ?thesis by (simp add: update_throttled)
next
  case False
  obtain rb s hh where b: "update_body lib self h = (rb, s, hh)"
    by (cases "update_body lib self h")
  with False assms have "h' = hh" by (simp add: update_open)
  with update_body_keeps(1)[OF b] show ?thesis by simp
qed

text \<open>\<open>async_setup_entry\<close> from the point where the entry's two fields have been read and
  \<open>refresh\<close> has returned.\<close>

lemma setup_entry_unfold:
  assumes "subscript (entry_data (entry_obj hass e)) CONF_API_KEY = Inr api_key"
      and "subscript (entry_data (entry_obj hass e)) CONF_REFRESH_TOKEN = Inr refresh_token"
      and "refresh lib (EcobeeData_init lib e api_key refresh_token) hass = (Inr ok, data1, h1)"
  shows "async_setup_entry lib K now hass e =
     (if \<not> ok then (Inr False, h1)
      else
       (case update lib now data1 h1 of
          (Inl x, data2, h2) \<Rightarrow> (Inl x, h2)
        | (Inr v, data2, h2) \<Rightarrow>
            if Ecobee_thermostats lib (ecobee data2) = None then
              (Inr False, LOGGER ERROR ''No ecobee devices found to set up'' h2)
            else
              (Inr True,
               foldl (\<lambda>h component. async_create_task (Forward_entry_setup e component) h)
                 (h2\<lparr>hass_data := setitem (hass_data h2) (DOMAIN K) (Data data2)\<rparr>)
                 (ECOBEE_PLATFORMS K))))"
  using assms by (simp add: async_setup_entry_def Let_def)

lemma create_tasks_keep:
  "hass_data (foldl (\<lambda>h c. async_create_task (f c) h) h0 cs) = hass_data h0"
  by (induction cs arbitrary: h0) (simp_all add: async_create_task_def emit_def)

text \<open>\<open>gather\<close> returns a list exactly when no request raises.\<close>

lemma first_raised_map_Inr: "first_raised (map Inr bs) = Inr bs"
  by (induction bs) simp_all

lemma first_raised_Inr: "first_raised rs = Inr bs \<Longrightarrow> rs = map Inr bs"
proof (induction rs arbitrary: bs)
  case Nil
  then show ?case by simp
next
  case (Cons r rs)
  then show ?case by (cases r) (auto split: sum.splits)
qed

lemma trace_unload_requests:
  "trace (foldl (\<lambda>h' (e, p). emit (Forward_entry_unload e p) h') h tasks)
     = trace h @ map (\<lambda>(e, p). Forward_entry_unload e p) tasks"
  by (induction tasks arbitrary: h) (auto simp: emit_def)

lemma all_py_iff: "all_py bs \<longleftrightarrow> (\<forall>b \<in> set bs. b)"
  by (simp add: all_py_def list_all_iff)

text \<open>
  What \<open>async_setup\<close> does, in one equation: it always stores the block found under the
  domain (an empty one if there is none) and returns \<open>True\<close>; it creates the import task
  exactly when no entry of the domain exists and the stored block is not empty.
\<close>

lemma async_setup_eq:
  "async_setup K h config =
     (Inr True,
      (if async_entries h (DOMAIN K) = [] \<and> dict_get config (DOMAIN K) [] \<noteq> []
       then async_create_task (Flow_async_init (DOMAIN K) [(''source'', SOURCE_IMPORT K)])
       else id)
        (h\<lparr>hass_data := setitem (hass_data h) (DATA_ECOBEE_CONFIG K)
                          (Config (dict_get config (DOMAIN K) []))\<rparr>))"
  by (simp add: async_setup_def Let_def async_entries_def subscript_def setitem_def update_conv')

section \<open>The claims\<close>

subsection \<open>C1: a successful refresh leaves the entry in sync with the client\<close>

text \<open>
  C1. For every entry and coordinator, if \<open>refresh()\<close> returns true, then right afterwards
  the data stored in the coordinator's entry is exactly the pair \<open>{api_key, refresh_token}\<close>
  whose values are the client's current \<open>config\<close> values for its API key and its refresh
  token.
\<close>

theorem refresh_success_entry_in_sync:
  assumes "refresh lib self h = (Inr True, self', h')"
  shows "\<exists>k t. subscript (Ecobee_config lib (ecobee self')) (ECOBEE_API_KEY lib) = Inr k
             \<and> subscript (Ecobee_config lib (ecobee self')) (ECOBEE_REFRESH_TOKEN lib) = Inr t
             \<and> entry_data (entry_obj h' (entry self)) = [(CONF_API_KEY, k), (CONF_REFRESH_TOKEN, t)]"
  using assms
  by (auto simp: refresh_unfold setitem_def CONF_API_KEY_def CONF_REFRESH_TOKEN_def
           split: prod.splits sum.splits if_splits)

text \<open>
  The scenario of the spec: the entry holds K1, R1, the service grants K2, R2; after
  \<open>refresh()\<close> the entry holds K2, R2.
\<close>

theorem refresh_success_entry_in_sync_witness:
  "fst (refresh (scripted_pyecobee (Inr (Some (''K2'', ''R2''))) (Inr []))
         (data0 (scripted_pyecobee (Inr (Some (''K2'', ''R2''))) (Inr []))) hass0) = Inr True
   \<and> entry_data (entry_obj (snd (snd (refresh (scripted_pyecobee (Inr (Some (''K2'', ''R2''))) (Inr []))
         (data0 (scripted_pyecobee (Inr (Some (''K2'', ''R2''))) (Inr []))) hass0))) 0)
       = [(''api_key'', ''K2''), (''refresh_token'', ''R2'')]"
proof -
  let ?L = "scripted_pyecobee (Inr (Some (''K2'', ''R2''))) (Inr [])"
  have run: "refresh ?L (data0 ?L) hass0
      = (Inr True, fst (snd (refresh ?L (data0 ?L) hass0)), snd (snd (refresh ?L (data0 ?L) hass0)))"
    by (simp add: run_simps)
  from refresh_success_entry_in_sync[OF run] show ?thesis
    by (simp add: run_simps)
qed


subsection \<open>C2: two calls of \<open>update\<close> within the throttle interval\<close>

text \<open>
  C2. For any coordinator, calling \<open>update()\<close> twice within the throttle interval of 180
  seconds results in exactly one data fetch of the external service: when a first call at
  \<open>t1\<close> goes through the throttle, however it ends (it returns, or it raises), a second call
  at any \<open>t2\<close> less than 180 seconds after \<open>t1\<close> is a silent no-op (it returns without an
  error and changes neither the coordinator nor \<open>hass\<close>), so that both calls together have
  fetched once.
\<close>

theorem update_twice_fetches_once:
  assumes "\<not> throttled MIN_TIME_BETWEEN_UPDATES t1 self"
      and "update lib t1 self h = (r, self1, h1)"
      and "t2 - t1 < timedelta_seconds 180"
  shows "update lib t2 self1 h1 = (Inr (), self1, h1)
       \<and> fetch_calls (trace (snd (snd (update lib t2 self1 h1)))) = fetch_calls (trace h) + 1"
proof -
  obtain rb s hh where b: "update_body lib self h = (rb, s, hh)"
    by (cases "update_body lib self h")
  from assms(1,2) b have "self1 = s\<lparr>throttle := Some t1\<rparr>" and "h1 = hh"
    by (simp_all add: update_open)
  with update_body_keeps(4)[OF b] assms(3)
  have "throttled MIN_TIME_BETWEEN_UPDATES t2 self1"
    and "fetch_calls (trace h1) = fetch_calls (trace h) + 1"
    by (simp_all add: throttled_def MIN_TIME_BETWEEN_UPDATES_def)
  then show ?thesis by (simp add: update_throttled)
qed

text \<open>
  Two runs on a new coordinator, updated at time 0 and again 179.999999 seconds later. In
  the first run the fetch delivers a thermostat, in the second it raises (a lost
  connection) and so does the first \<open>update()\<close>. Both times the second call returns the
  state that the first call left, in which one fetch has been made.
\<close>

theorem update_twice_fetches_once_witness:
  "\<not> throttled MIN_TIME_BETWEEN_UPDATES 0 (data0 (scripted_pyecobee (Inr None) (Inr [''Hallway''])))
   \<and> update (scripted_pyecobee (Inr None) (Inr [''Hallway''])) 0
        (data0 (scripted_pyecobee (Inr None) (Inr [''Hallway'']))) hass0
      = (Inr (),
         \<lparr>entry = 0,
          ecobee = ([(''API_KEY'', ''K1''), (''REFRESH_TOKEN'', ''R1'')], Some [''Hallway'']),
          throttle = Some 0\<rparr>,
         hass0\<lparr>trace := [Executor_job Job_update, Log DEBUG ''Updating ecobee'']\<rparr>)
   \<and> (179999999 :: int) - 0 < timedelta_seconds 180
   \<and> update (scripted_pyecobee (Inr None) (Inr [''Hallway''])) 179999999
        \<lparr>entry = 0,
         ecobee = ([(''API_KEY'', ''K1''), (''REFRESH_TOKEN'', ''R1'')], Some [''Hallway'']),
         throttle = Some 0\<rparr>
        (hass0\<lparr>trace := [Executor_job Job_update, Log DEBUG ''Updating ecobee'']\<rparr>)
      = (Inr (),
         \<lparr>entry = 0,
          ecobee = ([(''API_KEY'', ''K1''), (''REFRESH_TOKEN'', ''R1'')], Some [''Hallway'']),
          throttle = Some 0\<rparr>,
         hass0\<lparr>trace := [Executor_job Job_update, Log DEBUG ''Updating ecobee'']\<rparr>)
   \<and> fetch_calls [Executor_job Job_update, Log DEBUG ''Updating ecobee''] = 1
   \<and> update (scripted_pyecobee (Inr None) (Inl (OtherError ''connection lost''))) 0
        (data0 (scripted_pyecobee (Inr None) (Inl (OtherError ''connection lost'')))) hass0
      = (Inl (OtherError ''connection lost''),
         \<lparr>entry = 0,
          ecobee = ([(''API_KEY'', ''K1''), (''REFRESH_TOKEN'', ''R1'')], None),
          throttle = Some 0\<rparr>,
         hass0\<lparr>trace := [Executor_job Job_update]\<rparr>)
   \<and> update (scripted_pyecobee (Inr None) (Inl (OtherError ''connection lost''))) 179999999
        \<lparr>entry = 0,
         ecobee = ([(''API_KEY'', ''K1''), (''REFRESH_TOKEN'', ''R1'')], None),
         throttle = Some 0\<rparr>
        (hass0\<lparr>trace := [Executor_job Job_update]\<rparr>)
      = (Inr (),
         \<lparr>entry = 0,
          ecobee = ([(''API_KEY'', ''K1''), (''REFRESH_TOKEN'', ''R1'')], None),
          throttle = Some 0\<rparr>,
         hass0\<lparr>trace := [Executor_job Job_update]\<rparr>)
   \<and> fetch_calls [Executor_job Job_update] = 1"
proof -
  let ?L = "scripted_pyecobee (Inr None) (Inr [''Hallway''])"
  let ?M = "scripted_pyecobee (Inr None) (Inl (OtherError ''connection lost''))"
  let ?s1 = "\<lparr>entry = 0,
          ecobee = ([(''API_KEY'', ''K1''), (''REFRESH_TOKEN'', ''R1'')], Some [''Hallway'']),
          throttle = Some (0::int)\<rparr>"
  let ?h1 = "hass0\<lparr>trace := [Executor_job Job_update, Log DEBUG ''Updating ecobee'']\<rparr>"
  let ?s2 = "\<lparr>entry = 0,
          ecobee = ([(''API_KEY'', ''K1''), (''REFRESH_TOKEN'', ''R1'')], None :: thermostat list option),
          throttle = Some (0::int)\<rparr>"
  let ?h2 = "hass0\<lparr>trace := [Executor_job Job_update]\<rparr>"
  have a: "\<not> throttled MIN_TIME_BETWEEN_UPDATES 0 (data0 ?L)"
    and a': "\<not> throttled MIN_TIME_BETWEEN_UPDATES 0 (data0 ?M)"
    by (simp_all add: throttled_def data0_def EcobeeData_init_def)
  have b: "update ?L 0 (data0 ?L) hass0 = (Inr (), ?s1, ?h1)"
    by (simp add: run_simps)
  have b': "update ?M 0 (data0 ?M) hass0 = (Inl (OtherError ''connection lost''), ?s2, ?h2)"
    by (simp add: run_simps)
  have c: "(179999999 :: int) - 0 < timedelta_seconds 180"
    by (simp add: timedelta_seconds_def)
  from update_twice_fetches_once[OF a b c] update_twice_fetches_once[OF a' b' c] a b b' c
  show ?thesis
    by (simp add: fetch_calls_def hass0_def)
qed

subsection \<open>C3: an expired token during \<open>update\<close>\<close>

text \<open>
  C3. For every coordinator and every call of \<open>update()\<close> that the throttle lets through: if
  the data fetch raises \<open>ExpiredTokenError\<close>, then \<open>update()\<close> calls \<open>refresh()\<close> exactly once,
  and the error of the fetch does not reach the caller: the outcome of \<open>update()\<close> is that of
  this one call of \<open>refresh()\<close> (its boolean dropped), so \<open>update()\<close> raises
  \<open>ExpiredTokenError\<close> only if the token refresh raises one anew. If the data fetch raises
  anything else, \<open>update()\<close> raises it to the caller and \<open>refresh()\<close> is not called.
\<close>

theorem update_expired_token:
  assumes "\<not> throttled MIN_TIME_BETWEEN_UPDATES now self"
      and "Ecobee_update lib (ecobee self) = (Inl x, c)"
      and "update lib now self h = (r, self', h')"
  shows "(x = ExpiredTokenError \<longrightarrow>
            refresh_calls (trace h') = refresh_calls (trace h) + 1
          \<and> (\<exists>h1 rr s. refresh lib (self\<lparr>ecobee := c\<rparr>) h1 = (rr, s, h')
                \<and> r = (case rr of Inl y \<Rightarrow> Inl y | Inr b \<Rightarrow> Inr ()))
          \<and> (fst (Ecobee_refresh_tokens lib c) \<noteq> Inl ExpiredTokenError \<longrightarrow>
                r \<noteq> Inl ExpiredTokenError))
       \<and> (x \<noteq> ExpiredTokenError \<longrightarrow>
            r = Inl x \<and> refresh_calls (trace h') = refresh_calls (trace h))"
proof (cases "x = ExpiredTokenError")
  case False
  with assms show ?thesis
    by (auto simp: update_open update_body_not_expired emit_def refresh_calls_def)
next
  case True
  let ?h1 = "LOGGER WARNING ''Ecobee update failed; attempting to refresh expired tokens''
                (emit (Executor_job Job_update) h)"
  obtain rr s hh where rf: "refresh lib (self\<lparr>ecobee := c\<rparr>) ?h1 = (rr, s, hh)"
    by (cases "refresh lib (self\<lparr>ecobee := c\<rparr>) ?h1")
  from assms True rf have e: "h' = hh" "r = (case rr of Inl y \<Rightarrow> Inl y | Inr b \<Rightarrow> Inr ())"
    by (auto simp: update_open update_body_expired split: sum.splits)
  have n: "refresh_calls (trace h') = refresh_calls (trace h) + 1"
    using refresh_calls_refresh(1)[OF rf] e
    by (simp add: LOGGER_def emit_def refresh_calls_def)
  have x: "fst (Ecobee_refresh_tokens lib c) \<noteq> Inl ExpiredTokenError \<longrightarrow>
             r \<noteq> Inl ExpiredTokenError"
    using rf e
    by (auto simp: refresh_unfold subscript_def
             split: prod.splits sum.splits if_splits option.splits)
  from rf e n x True show ?thesis by blast
qed

text \<open>
  Two runs on a new coordinator. In the first the fetch raises \<open>ExpiredTokenError\<close> and the
  service grants new tokens: \<open>update()\<close> returns, after one token refresh. In the second
  the fetch fails for another reason: \<open>update()\<close> raises that error, with no token refresh.
\<close>

theorem update_expired_token_witness:
  "Ecobee_update (scripted_pyecobee (Inr (Some (''K2'', ''R2''))) (Inl ExpiredTokenError))
       (ecobee (data0 (scripted_pyecobee (Inr (Some (''K2'', ''R2''))) (Inl ExpiredTokenError))))
     = (Inl ExpiredTokenError, ([(''API_KEY'', ''K1''), (''REFRESH_TOKEN'', ''R1'')], None))
   \<and> fst (update (scripted_pyecobee (Inr (Some (''K2'', ''R2''))) (Inl ExpiredTokenError)) 0
        (data0 (scripted_pyecobee (Inr (Some (''K2'', ''R2''))) (Inl ExpiredTokenError))) hass0)
      = Inr ()
   \<and> refresh_calls (trace (snd (snd
        (update (scripted_pyecobee (Inr (Some (''K2'', ''R2''))) (Inl ExpiredTokenError)) 0
          (data0 (scripted_pyecobee (Inr (Some (''K2'', ''R2''))) (Inl ExpiredTokenError))) hass0))))
      = 1
   \<and> fst (update (scripted_pyecobee (Inr None) (Inl (OtherError ''connection lost''))) 0
        (data0 (scripted_pyecobee (Inr None) (Inl (OtherError ''connection lost'')))) hass0)
      = Inl (OtherError ''connection lost'')
   \<and> refresh_calls (trace (snd (snd
        (update (scripted_pyecobee (Inr None) (Inl (OtherError ''connection lost''))) 0
          (data0 (scripted_pyecobee (Inr None) (Inl (OtherError ''connection lost'')))) hass0))))
      = 0"
proof -
  let ?L = "scripted_pyecobee (Inr (Some (''K2'', ''R2''))) (Inl ExpiredTokenError)"
  let ?M = "scripted_pyecobee (Inr None) (Inl (OtherError ''connection lost''))"
  let ?c = "([(''API_KEY'', ''K1''), (''REFRESH_TOKEN'', ''R1'')], None :: thermostat list option)"
  have a: "\<not> throttled MIN_TIME_BETWEEN_UPDATES 0 (data0 ?L)"
    and a': "\<not> throttled MIN_TIME_BETWEEN_UPDATES 0 (data0 ?M)"
    by (simp_all add: throttled_def data0_def EcobeeData_init_def)
  have b: "Ecobee_update ?L (ecobee (data0 ?L)) = (Inl ExpiredTokenError, ?c)"
    and b': "Ecobee_update ?M (ecobee (data0 ?M)) = (Inl (OtherError ''connection lost''), ?c)"
    by (simp_all add: run_simps)
  have c: "update ?L 0 (data0 ?L) hass0
      = (fst (update ?L 0 (data0 ?L) hass0), fst (snd (update ?L 0 (data0 ?L) hass0)),
         snd (snd (update ?L 0 (data0 ?L) hass0)))"
    and c': "update ?M 0 (data0 ?M) hass0
      = (fst (update ?M 0 (data0 ?M) hass0), fst (snd (update ?M 0 (data0 ?M) hass0)),
         snd (snd (update ?M 0 (data0 ?M) hass0)))"
    by simp_all
  have d: "fst (update ?L 0 (data0 ?L) hass0) = Inr ()"
    by (simp add: run_simps)
  have t0: "refresh_calls (trace hass0) = 0"
    by (simp add: refresh_calls_def hass0_def)
  from update_expired_token[OF a b c] update_expired_token[OF a' b' c'] b d t0
  show ?thesis by simp
qed


subsection \<open>C4: setup when the first refresh fails\<close>

text \<open>
  C4. For every entry (holding the two fields that setup reads), if \<open>refresh()\<close> returns
  false during setup, then setup returns false without raising, and \<open>hass.data\<close> is left as
  it was: nothing is written under the domain, no coordinator is registered.
\<close>

theorem setup_fails_when_refresh_fails:
  assumes "subscript (entry_data (entry_obj hass e)) CONF_API_KEY = Inr api_key"
      and "subscript (entry_data (entry_obj hass e)) CONF_REFRESH_TOKEN = Inr refresh_token"
      and "refresh lib (EcobeeData_init lib e api_key refresh_token) hass = (Inr False, data1, h1)"
  shows "async_setup_entry lib K now hass e = (Inr False, h1) \<and> hass_data h1 = hass_data hass"
  using setup_entry_unfold[OF assms] refresh_keeps(1)[OF assms(3)] by simp

text \<open>The service refuses the token refresh: setup returns false, \<open>hass.data\<close> stays empty.\<close>

theorem setup_fails_when_refresh_fails_witness:
  "subscript (entry_data (entry_obj hass0 0)) CONF_API_KEY = Inr ''K1''
   \<and> subscript (entry_data (entry_obj hass0 0)) CONF_REFRESH_TOKEN = Inr ''R1''
   \<and> fst (refresh (scripted_pyecobee (Inr None) (Inr [''Hallway'']))
        (EcobeeData_init (scripted_pyecobee (Inr None) (Inr [''Hallway''])) 0 ''K1'' ''R1'') hass0)
      = Inr False
   \<and> fst (async_setup_entry (scripted_pyecobee (Inr None) (Inr [''Hallway''])) const0 0 hass0 0)
      = Inr False
   \<and> hass_data (snd (async_setup_entry (scripted_pyecobee (Inr None) (Inr [''Hallway'']))
        const0 0 hass0 0)) = []"
proof -
  let ?L = "scripted_pyecobee (Inr None) (Inr [''Hallway''])"
  let ?d = "EcobeeData_init ?L 0 ''K1'' ''R1''"
  have a: "subscript (entry_data (entry_obj hass0 0)) CONF_API_KEY = Inr ''K1''"
    and b: "subscript (entry_data (entry_obj hass0 0)) CONF_REFRESH_TOKEN = Inr ''R1''"
    by (simp_all add: run_simps)
  have c: "fst (refresh ?L ?d hass0) = Inr False"
    by (simp add: run_simps)
  then have c': "refresh ?L ?d hass0
      = (Inr False, fst (snd (refresh ?L ?d hass0)), snd (snd (refresh ?L ?d hass0)))"
    by (simp add: prod_eq_iff)
  have z: "hass_data hass0 = []"
    by (simp add: hass0_def)
  from setup_fails_when_refresh_fails[OF a b c', of const0 0] a b c z show ?thesis
    by simp
qed

subsection \<open>C5: setup when no device collection was obtained\<close>

text \<open>
  C5, as stated, fails. It says that setup returns failure also when the device collection
  is empty after the refresh and the update. The code tests \<open>thermostats is None\<close> only: with
  a service that delivers an empty thermostat list, setup returns true and registers the
  coordinator, whose client holds the empty list.
\<close>

theorem setup_empty_collection_counterexample:
  "fst (async_setup_entry (scripted_pyecobee (Inr (Some (''K2'', ''R2''))) (Inr [])) const0 0 hass0 0)
     = Inr True
   \<and> map_of (hass_data (snd (async_setup_entry
        (scripted_pyecobee (Inr (Some (''K2'', ''R2''))) (Inr [])) const0 0 hass0 0))) ''ecobee''
     = Some (Data \<lparr>entry = 0,
                   ecobee = ([(''API_KEY'', ''K2''), (''REFRESH_TOKEN'', ''R2'')], Some []),
                   throttle = Some 0\<rparr>)
   \<and> Ecobee_thermostats (scripted_pyecobee (Inr (Some (''K2'', ''R2''))) (Inr []))
        ([(''API_KEY'', ''K2''), (''REFRESH_TOKEN'', ''R2'')], Some []) = Some []"
  by (simp add: run_simps)

text \<open>
  C5, amended. For every entry, if the refresh succeeds and the update returns during setup,
  then setup returns failure exactly when the device collection is absent (\<open>None\<close>)
  afterwards, and then registers nothing; when a collection is present, be it an empty one,
  setup returns success and registers the coordinator under the domain.
\<close>

theorem setup_fails_when_thermostats_absent:
  assumes "subscript (entry_data (entry_obj hass e)) CONF_API_KEY = Inr api_key"
      and "subscript (entry_data (entry_obj hass e)) CONF_REFRESH_TOKEN = Inr refresh_token"
      and "refresh lib (EcobeeData_init lib e api_key refresh_token) hass = (Inr True, data1, h1)"
      and "update lib now data1 h1 = (Inr (), data2, h2)"
  shows "fst (async_setup_entry lib K now hass e) = Inr (Ecobee_thermostats lib (ecobee data2) \<noteq> None)
       \<and> (Ecobee_thermostats lib (ecobee data2) = None \<longrightarrow>
            hass_data (snd (async_setup_entry lib K now hass e)) = hass_data hass)
       \<and> (Ecobee_thermostats lib (ecobee data2) \<noteq> None \<longrightarrow>
            map_of (hass_data (snd (async_setup_entry lib K now hass e))) (DOMAIN K)
              = Some (Data data2))"
  using setup_entry_unfold[OF assms(1-3)] assms(4) refresh_keeps(1)[OF assms(3)]
    update_keeps_data[OF assms(4)]
  by (auto simp: LOGGER_def emit_def create_tasks_keep setitem_def update_conv')

text \<open>
  Two runs. In the first the fetch raises \<open>ExpiredTokenError\<close>, which \<open>update()\<close> handles, so
  that no collection was obtained: setup returns false and \<open>hass.data\<close> stays empty. In the
  second the service delivers one thermostat: setup returns true, the coordinator is
  registered.
\<close>

theorem setup_fails_when_thermostats_absent_witness:
  "fst (refresh (scripted_pyecobee (Inr (Some (''K2'', ''R2''))) (Inl ExpiredTokenError))
        (EcobeeData_init (scripted_pyecobee (Inr (Some (''K2'', ''R2''))) (Inl ExpiredTokenError))
           0 ''K1'' ''R1'') hass0) = Inr True
   \<and> fst (async_setup_entry (scripted_pyecobee (Inr (Some (''K2'', ''R2''))) (Inl ExpiredTokenError))
        const0 0 hass0 0) = Inr False
   \<and> hass_data (snd (async_setup_entry
        (scripted_pyecobee (Inr (Some (''K2'', ''R2''))) (Inl ExpiredTokenError)) const0 0 hass0 0))
      = []
   \<and> fst (async_setup_entry (scripted_pyecobee (Inr (Some (''K2'', ''R2''))) (Inr [''Hallway'']))
        const0 0 hass0 0) = Inr True
   \<and> map_of (hass_data (snd (async_setup_entry
        (scripted_pyecobee (Inr (Some (''K2'', ''R2''))) (Inr [''Hallway''])) const0 0 hass0 0)))
        ''ecobee''
      = Some (Data \<lparr>entry = 0,
                    ecobee = ([(''API_KEY'', ''K2''), (''REFRESH_TOKEN'', ''R2'')], Some [''Hallway'']),
                    throttle = Some 0\<rparr>)"
proof -
  let ?L = "scripted_pyecobee (Inr (Some (''K2'', ''R2''))) (Inl ExpiredTokenError)"
  let ?M = "scripted_pyecobee (Inr (Some (''K2'', ''R2''))) (Inr [''Hallway''])"
  let ?c = "([(''API_KEY'', ''K2''), (''REFRESH_TOKEN'', ''R2'')], None :: thermostat list option)"
  let ?d1 = "\<lparr>entry = 0, ecobee = ?c, throttle = None :: datetime option\<rparr>"
  let ?rL = "refresh ?L (EcobeeData_init ?L 0 ''K1'' ''R1'') hass0"
  let ?rM = "refresh ?M (EcobeeData_init ?M 0 ''K1'' ''R1'') hass0"
  let ?uL = "update ?L 0 ?d1 (snd (snd ?rL))"
  let ?uM = "update ?M 0 ?d1 (snd (snd ?rM))"
  have a: "subscript (entry_data (entry_obj hass0 0)) CONF_API_KEY = Inr ''K1''"
    and b: "subscript (entry_data (entry_obj hass0 0)) CONF_REFRESH_TOKEN = Inr ''R1''"
    by (simp_all add: run_simps)
  have c: "?rL = (Inr True, ?d1, snd (snd ?rL))" and c': "?rM = (Inr True, ?d1, snd (snd ?rM))"
    by (simp_all add: run_simps)
  have d: "?uL = (Inr (), \<lparr>entry = 0, ecobee = ?c, throttle = Some 0\<rparr>, snd (snd ?uL))"
    by (simp add: run_simps)
  have d': "?uM = (Inr (),
      \<lparr>entry = 0,
       ecobee = ([(''API_KEY'', ''K2''), (''REFRESH_TOKEN'', ''R2'')], Some [''Hallway'']),
       throttle = Some 0\<rparr>, snd (snd ?uM))"
    by (simp add: run_simps)
  have t: "Ecobee_thermostats ?L ?c = None"
    "Ecobee_thermostats ?M ([(''API_KEY'', ''K2''), (''REFRESH_TOKEN'', ''R2'')], Some [''Hallway''])
       = Some [''Hallway'']"
    by (simp_all add: scripted_pyecobee_def)
  have z: "hass_data hass0 = []" "DOMAIN const0 = ''ecobee''"
    by (simp_all add: hass0_def const0_def)
  have c1: "fst ?rL = Inr True"
    by (simp add: run_simps)
  from setup_fails_when_thermostats_absent[OF a b c d, of const0]
    setup_fails_when_thermostats_absent[OF a b c' d', of const0] c1 t z
  show ?thesis by simp
qed


subsection \<open>C6: the import flow at start\<close>

text \<open>
  C6. The claim: if no durable entry exists for the integration and the legacy
  configuration block is present, even when that block is empty, then \<open>async_setup\<close>
  schedules the import task. The code tests the truth value of the stored block, and an
  empty \<open>dict\<close> is false: at a first start (no entry) with the configuration
  \<open>{''ecobee'': {}}\<close>, \<open>async_setup\<close> stores the empty block, creates no task (the trace
  stays empty) and returns true.
\<close>

theorem async_setup_empty_block_no_import:
  "async_entries hass_fresh (DOMAIN const0) = []
   \<and> map_of [(''ecobee'', [])] (DOMAIN const0) = Some ([] :: (string, string) dict)
   \<and> async_setup const0 hass_fresh [(''ecobee'', [])]
      = (Inr True, hass_fresh\<lparr>hass_data := [(''ecobee_config'', Config [])]\<rparr>)
   \<and> trace (snd (async_setup const0 hass_fresh [(''ecobee'', [])])) = []"
  by (simp add: run_simps)

subsection \<open>C7: unload asks every platform\<close>

text \<open>
  C7. For every entry and every list of declared platforms, when a coordinator is
  registered under the domain: unload returns success if and only if the forwarded unload
  of every platform reports success; if the platforms all report and one of them reports
  failure, unload returns failure; and in every case the unload of each of the N platforms
  has been requested, in the order of the list (no short-circuit).
\<close>

theorem unload_all_platforms:
  assumes "map_of (hass_data hass) (DOMAIN K) = Some v"
      and "async_unload_entry fwd K hass e = (r, h')"
  shows "(r = Inr True \<longleftrightarrow> (\<forall>p \<in> set (ECOBEE_PLATFORMS K). fwd e p = Inr True))
       \<and> ((\<forall>p \<in> set (ECOBEE_PLATFORMS K). \<exists>b. fwd e p = Inr b)
            \<and> (\<exists>p \<in> set (ECOBEE_PLATFORMS K). fwd e p = Inr False) \<longrightarrow> r = Inr False)
       \<and> trace h' = trace hass @ map (Forward_entry_unload e) (ECOBEE_PLATFORMS K)"
proof -
  let ?rs = "map (fwd e) (ECOBEE_PLATFORMS K)"
  from assms have r: "r = (case first_raised ?rs of Inl x \<Rightarrow> Inl x | Inr bs \<Rightarrow> Inr (all_py bs))"
    and t: "trace h' = trace hass @ map (Forward_entry_unload e) (ECOBEE_PLATFORMS K)"
    by (auto simp: async_unload_entry_def dict_pop_def gather_def Let_def trace_unload_requests
          comp_def split: sum.splits)
  have a: "r = Inr True \<longleftrightarrow> (\<forall>p \<in> set (ECOBEE_PLATFORMS K). fwd e p = Inr True)"
  proof
    assume "r = Inr True"
    with r obtain bs where bs: "first_raised ?rs = Inr bs" "all_py bs"
      by (auto split: sum.splits)
    from first_raised_Inr[OF bs(1)] have "?rs = map Inr bs" .
    moreover from bs(2) have "map Inr bs = map (\<lambda>b. Inr True) bs"
      by (auto simp: all_py_iff)
    ultimately have "\<forall>x \<in> set ?rs. x = Inr True" by auto
    then show "\<forall>p \<in> set (ECOBEE_PLATFORMS K). fwd e p = Inr True" by simp
  next
    assume "\<forall>p \<in> set (ECOBEE_PLATFORMS K). fwd e p = Inr True"
    then have "?rs = map Inr (map (\<lambda>p. True) (ECOBEE_PLATFORMS K))" by simp
    then have "first_raised ?rs = Inr (map (\<lambda>p. True) (ECOBEE_PLATFORMS K))"
      by (simp only: first_raised_map_Inr)
    with r show "r = Inr True" by (simp add: all_py_iff)
  qed
  have b: "(\<forall>p \<in> set (ECOBEE_PLATFORMS K). \<exists>b. fwd e p = Inr b)
            \<and> (\<exists>p \<in> set (ECOBEE_PLATFORMS K). fwd e p = Inr False) \<longrightarrow> r = Inr False"
  proof
    assume h: "(\<forall>p \<in> set (ECOBEE_PLATFORMS K). \<exists>b. fwd e p = Inr b)
            \<and> (\<exists>p \<in> set (ECOBEE_PLATFORMS K). fwd e p = Inr False)"
    then have "?rs = map Inr (map (\<lambda>p. fwd e p = Inr True) (ECOBEE_PLATFORMS K))"
      by auto
    then have fr: "first_raised ?rs = Inr (map (\<lambda>p. fwd e p = Inr True) (ECOBEE_PLATFORMS K))"
      by (simp only: first_raised_map_Inr)
    from h obtain p where "p \<in> set (ECOBEE_PLATFORMS K)" and "fwd e p = Inr False"
      by blast
    then have "\<not> all_py (map (\<lambda>p. fwd e p = Inr True) (ECOBEE_PLATFORMS K))"
      by (auto simp: all_py_iff intro!: bexI[of _ p])
    with r fr show "r = Inr False" by simp
  qed
  from a b t show ?thesis by blast
qed

text \<open>
  With a coordinator registered and four platforms: when all of them unload, unload returns
  true; when \<open>climate\<close> alone does not, unload returns false; both times the four unloads
  have been requested.
\<close>

theorem unload_all_platforms_witness:
  "map_of (hass_data (hass0\<lparr>hass_data :=
        [(''ecobee'', Data (data0 (scripted_pyecobee (Inr None) (Inr []))))]\<rparr>)) (DOMAIN const0)
      = Some (Data (data0 (scripted_pyecobee (Inr None) (Inr []))))
   \<and> async_unload_entry unload_ok const0
        (hass0\<lparr>hass_data := [(''ecobee'', Data (data0 (scripted_pyecobee (Inr None) (Inr []))))]\<rparr>) 0
      = (Inr True,
         hass0\<lparr>trace := [Forward_entry_unload 0 ''binary_sensor'', Forward_entry_unload 0 ''climate'',
                          Forward_entry_unload 0 ''sensor'', Forward_entry_unload 0 ''weather'']\<rparr>)
   \<and> unload_climate_fails 0 ''climate'' = Inr False
   \<and> async_unload_entry unload_climate_fails const0
        (hass0\<lparr>hass_data := [(''ecobee'', Data (data0 (scripted_pyecobee (Inr None) (Inr []))))]\<rparr>) 0
      = (Inr False,
         hass0\<lparr>trace := [Forward_entry_unload 0 ''binary_sensor'', Forward_entry_unload 0 ''climate'',
                          Forward_entry_unload 0 ''sensor'', Forward_entry_unload 0 ''weather'']\<rparr>)"
proof -
  let ?v = "Data (data0 (scripted_pyecobee (Inr None) (Inr [])))"
  let ?h = "hass0\<lparr>hass_data := [(''ecobee'', ?v)]\<rparr>"
  let ?h' = "hass0\<lparr>trace := [Forward_entry_unload 0 ''binary_sensor'',
      Forward_entry_unload 0 ''climate'', Forward_entry_unload 0 ''sensor'',
      Forward_entry_unload 0 ''weather'']\<rparr>"
  have a: "map_of (hass_data ?h) (DOMAIN const0) = Some ?v"
    by (simp add: const0_def)
  have b: "async_unload_entry unload_ok const0 ?h 0 = (Inr True, ?h')"
    by (simp add: run_simps)
  have c: "async_unload_entry unload_climate_fails const0 ?h 0 = (Inr False, ?h')"
    by (simp add: run_simps)
  have d: "unload_climate_fails 0 ''climate'' = Inr False"
    by (simp add: unload_climate_fails_def)
  from unload_all_platforms[OF a b] unload_all_platforms[OF a c] a b c d show ?thesis
    by simp
qed

subsection \<open>C8: what \<open>refresh\<close> raises\<close>

text \<open>
  C8, as stated, fails. It says that \<open>refresh()\<close> never raises, whatever the outcome of the
  external token refresh, the failure of the call itself included. \<open>refresh()\<close> has no
  handler around the call: when the client raises (here, a lost connection), \<open>refresh()\<close>
  raises the same exception instead of returning false.
\<close>

theorem refresh_raises_counterexample:
  "fst (refresh (scripted_pyecobee (Inl (OtherError ''connection lost'')) (Inr []))
         (data0 (scripted_pyecobee (Inl (OtherError ''connection lost'')) (Inr []))) hass0)
     = Inl (OtherError ''connection lost'')"
  by (simp add: run_simps)

text \<open>
  C8, amended. For every coordinator, the outcome of \<open>refresh()\<close> is the outcome of the
  external token-refresh call: when the call returns, \<open>refresh()\<close> does not raise and returns
  false for a falsy result and true for a truthy one (the client's \<open>config\<close> then holding
  its two credential keys); when the call itself raises, \<open>refresh()\<close> does not catch the
  exception, which reaches the caller.
\<close>

theorem refresh_outcome:
  assumes "Ecobee_refresh_tokens lib (ecobee self) = (out, c)"
      and "out = Inr True \<longrightarrow>
             map_of (Ecobee_config lib c) (ECOBEE_API_KEY lib) \<noteq> None
           \<and> map_of (Ecobee_config lib c) (ECOBEE_REFRESH_TOKEN lib) \<noteq> None"
  shows "fst (refresh lib self h) = out"
  using assms
  by (auto simp: refresh_unfold subscript_def
           split: prod.splits sum.splits if_splits option.splits)

text \<open>The service grants new tokens, and the service refuses: \<open>refresh()\<close> returns true, and
  false.\<close>

theorem refresh_outcome_witness:
  "Ecobee_refresh_tokens (scripted_pyecobee (Inr (Some (''K2'', ''R2''))) (Inr []))
       (ecobee (data0 (scripted_pyecobee (Inr (Some (''K2'', ''R2''))) (Inr []))))
     = (Inr True, ([(''API_KEY'', ''K2''), (''REFRESH_TOKEN'', ''R2'')], None))
   \<and> fst (refresh (scripted_pyecobee (Inr (Some (''K2'', ''R2''))) (Inr []))
        (data0 (scripted_pyecobee (Inr (Some (''K2'', ''R2''))) (Inr []))) hass0) = Inr True
   \<and> Ecobee_refresh_tokens (scripted_pyecobee (Inr None) (Inr []))
       (ecobee (data0 (scripted_pyecobee (Inr None) (Inr []))))
     = (Inr False, ([(''API_KEY'', ''K1''), (''REFRESH_TOKEN'', ''R1'')], None))
   \<and> fst (refresh (scripted_pyecobee (Inr None) (Inr []))
        (data0 (scripted_pyecobee (Inr None) (Inr []))) hass0) = Inr False"
proof -
  let ?L = "scripted_pyecobee (Inr (Some (''K2'', ''R2''))) (Inr [])"
  let ?M = "scripted_pyecobee (Inr None) (Inr [])"
  let ?c = "([(''API_KEY'', ''K2''), (''REFRESH_TOKEN'', ''R2'')], None :: thermostat list option)"
  let ?c' = "([(''API_KEY'', ''K1''), (''REFRESH_TOKEN'', ''R1'')], None :: thermostat list option)"
  have a: "Ecobee_refresh_tokens ?L (ecobee (data0 ?L)) = (Inr True, ?c)"
    and a': "Ecobee_refresh_tokens ?M (ecobee (data0 ?M)) = (Inr False, ?c')"
    by (simp_all add: run_simps)
  have b: "Inr True = (Inr True :: exn + bool) \<longrightarrow>
             map_of (Ecobee_config ?L ?c) (ECOBEE_API_KEY ?L) \<noteq> None
           \<and> map_of (Ecobee_config ?L ?c) (ECOBEE_REFRESH_TOKEN ?L) \<noteq> None"
    and b': "Inr False = (Inr True :: exn + bool) \<longrightarrow>
             map_of (Ecobee_config ?M ?c') (ECOBEE_API_KEY ?M) \<noteq> None
           \<and> map_of (Ecobee_config ?M ?c') (ECOBEE_REFRESH_TOKEN ?M) \<noteq> None"
    by (simp_all add: scripted_pyecobee_def)
  from refresh_outcome[OF a b, of hass0] refresh_outcome[OF a' b', of hass0] a a'
  show ?thesis by simp
qed

subsection \<open>C9: a failed refresh does not touch the entry\<close>

text \<open>
  C9. For every coordinator, if \<open>refresh()\<close> does not return true (it returns false, or it
  raises), the entry objects are what they were before the call, and so is the data
  \<open>{api_key, refresh_token}\<close> stored in the coordinator's entry: the entry is rewritten on
  the success path only.
\<close>

theorem refresh_failure_keeps_entry:
  assumes "refresh lib self h = (r, self', h')" and "r \<noteq> Inr True"
  shows "entry_obj h' = entry_obj h
       \<and> entry_data (entry_obj h' (entry self)) = entry_data (entry_obj h (entry self))"
  using assms by (auto simp: refresh_unfold split: prod.splits sum.splits if_splits)

text \<open>The service refuses the token refresh: the entry still holds K1, R1.\<close>

theorem refresh_failure_keeps_entry_witness:
  "refresh (scripted_pyecobee (Inr None) (Inr [])) (data0 (scripted_pyecobee (Inr None) (Inr []))) hass0
     = (Inr False, data0 (scripted_pyecobee (Inr None) (Inr [])),
        hass0\<lparr>trace := [Log DEBUG ''Refreshing ecobee tokens and updating config entry'',
                          Executor_job Job_refresh_tokens,
                          Log ERROR ''Error updating ecobee tokens'']\<rparr>)
   \<and> entry_data (entry_obj
        (hass0\<lparr>trace := [Log DEBUG ''Refreshing ecobee tokens and updating config entry'',
                          Executor_job Job_refresh_tokens,
                          Log ERROR ''Error updating ecobee tokens'']\<rparr>) 0)
      = [(''api_key'', ''K1''), (''refresh_token'', ''R1'')]"
proof -
  let ?L = "scripted_pyecobee (Inr None) (Inr [])"
  let ?h = "hass0\<lparr>trace := [Log DEBUG ''Refreshing ecobee tokens and updating config entry'',
                          Executor_job Job_refresh_tokens,
                          Log ERROR ''Error updating ecobee tokens'']\<rparr>"
  have run: "refresh ?L (data0 ?L) hass0 = (Inr False, data0 ?L, ?h)"
    by (simp add: run_simps)
  have ne: "(Inr False :: exn + bool) \<noteq> Inr True" by simp
  have e: "entry (data0 ?L) = 0" "entry_data (entry_obj hass0 0) = [(''api_key'', ''K1''), (''refresh_token'', ''R1'')]"
    by (simp_all add: data0_def EcobeeData_init_def hass0_def entry0_def)
  from refresh_failure_keeps_entry[OF run ne] run e show ?thesis by simp
qed

subsection \<open>C10: unload with nothing registered\<close>

text \<open>
  C10. For every state of \<open>hass\<close> in which \<open>hass.data\<close> has no item under the domain (setup
  never completed, or unload already ran), unload raises \<open>KeyError\<close> for the domain instead
  of returning a failure result, and does nothing else: \<open>pop\<close> is called with no default.
\<close>

theorem unload_unregistered_raises:
  assumes "map_of (hass_data hass) (DOMAIN K) = None"
  shows "async_unload_entry fwd K hass e = (Inl (KeyError (DOMAIN K)), hass)"
  using assms by (simp add: async_unload_entry_def dict_pop_def)

text \<open>Unload before any setup, and unload after an unload.\<close>

theorem unload_unregistered_raises_witness:
  "map_of (hass_data hass0) (DOMAIN const0) = None
   \<and> async_unload_entry unload_ok const0 hass0 0 = (Inl (KeyError ''ecobee''), hass0)
   \<and> map_of (hass_data (snd (async_unload_entry unload_ok const0
        (hass0\<lparr>hass_data := [(''ecobee'', Data (data0 (scripted_pyecobee (Inr None) (Inr []))))]\<rparr>) 0)))
        (DOMAIN const0) = None
   \<and> fst (async_unload_entry unload_ok const0
        (snd (async_unload_entry unload_ok const0
          (hass0\<lparr>hass_data := [(''ecobee'', Data (data0 (scripted_pyecobee (Inr None) (Inr []))))]\<rparr>) 0)) 0)
      = Inl (KeyError ''ecobee'')"
proof -
  let ?h = "hass0\<lparr>hass_data := [(''ecobee'', Data (data0 (scripted_pyecobee (Inr None) (Inr []))))]\<rparr>"
  have a: "map_of (hass_data hass0) (DOMAIN const0) = None"
    by (simp add: hass0_def)
  have b: "map_of (hass_data (snd (async_unload_entry unload_ok const0 ?h 0))) (DOMAIN const0) = None"
    by (simp add: run_simps)
  have d: "DOMAIN const0 = ''ecobee''"
    by (simp add: const0_def)
  from unload_unregistered_raises[OF a, of unload_ok 0]
    unload_unregistered_raises[OF b, of unload_ok 0] a b d
  show ?thesis by simp
qed


end
